theory Spec2Isabelle
  imports Main "HOL-Library.AList" "HOL-Library.Monad_Syntax"
begin

section \<open>Text primitives of the Python runtime\<close>

text \<open>
  A Python \<open>str\<close> is modelled as a \<open>string\<close>, one \<open>char\<close> per ASCII
  character; the few non-ASCII symbols of the program's own message literals are kept as
  their UTF-8 bytes. The library functions the program calls on report text
  (\<open>str.upper\<close>, \<open>str.lower\<close>, \<open>str.strip\<close>, \<open>str.capitalize\<close>,
  \<open>str.splitlines\<close> and the regex classes \<open>\s\<close> and \<open>\d\<close>) are written out
  for the ASCII range, where they are exact; a byte above 127 is left unchanged by the
  case functions and belongs to no class.
\<close>

definition ascii_lowercase :: string where
  "ascii_lowercase = ''abcdefghijklmnopqrstuvwxyz''"

definition ascii_uppercase :: string where
  "ascii_uppercase = ''ABCDEFGHIJKLMNOPQRSTUVWXYZ''"

definition digits :: string where
  "digits = ''0123456789''"

text \<open>The ASCII characters for which \<open>str.isspace\<close> holds, which are also those the
  regex class \<open>\s\<close> accepts: TAB, LF, VT, FF, CR, FS, GS, RS, US and the space.\<close>

definition whitespace :: string where
  "whitespace = [CHR 0x09, CHR 0x0A, CHR 0x0B, CHR 0x0C, CHR 0x0D,
                 CHR 0x1C, CHR 0x1D, CHR 0x1E, CHR 0x1F, CHR 0x20]"

text \<open>The ASCII line boundaries of \<open>str.splitlines\<close>: LF, VT, FF, CR, FS, GS, RS
  (US and TAB are whitespace but do not end a line).\<close>

definition line_breaks :: string where
  "line_breaks = [CHR 0x0A, CHR 0x0B, CHR 0x0C, CHR 0x0D, CHR 0x1C, CHR 0x1D, CHR 0x1E]"

definition isspace :: "char \<Rightarrow> bool" where
  "isspace c = (c \<in> set whitespace)"

definition upper_char :: "char \<Rightarrow> char" where
  "upper_char c = (case map_of (zip ascii_lowercase ascii_uppercase) c of
                     Some u \<Rightarrow> u | None \<Rightarrow> c)"

definition lower_char :: "char \<Rightarrow> char" where
  "lower_char c = (case map_of (zip ascii_uppercase ascii_lowercase) c of
                     Some l \<Rightarrow> l | None \<Rightarrow> c)"

definition upper :: "string \<Rightarrow> string" where
  "upper s = map upper_char s"

definition lower :: "string \<Rightarrow> string" where
  "lower s = map lower_char s"

definition capitalize :: "string \<Rightarrow> string" where
  "capitalize s = (case s of [] \<Rightarrow> [] | c # cs \<Rightarrow> upper_char c # lower cs)"

definition strip :: "string \<Rightarrow> string" where
  "strip s = rev (dropWhile isspace (rev (dropWhile isspace s)))"

text \<open>\<open>sep.join(xs)\<close>.\<close>

fun join :: "string \<Rightarrow> string list \<Rightarrow> string" where
  "join sep [] = []"
| "join sep [x] = x"
| "join sep (x # y # ys) = x @ sep @ join sep (y # ys)"

text \<open>\<open>needle in haystack\<close> on strings.\<close>

fun contains :: "string \<Rightarrow> string \<Rightarrow> bool" where
  "contains needle [] = (needle = [])"
| "contains needle (c # cs) =
     (take (length needle) (c # cs) = needle \<or> contains needle cs)"

text \<open>
  \<open>str.splitlines()\<close>: the text is cut at every line boundary, CR LF counting as one;
  the line in progress is emitted at a boundary even when empty, and at the end of the
  text only when it is not empty. The first argument is the line in progress.
\<close>

fun splitlines_from :: "string \<Rightarrow> string \<Rightarrow> string list" where
  "splitlines_from cur [] = (if cur = [] then [] else [cur])"
| "splitlines_from cur (c # cs) =
     (if c = CHR 0x0D \<and> cs \<noteq> [] \<and> hd cs = CHR 0x0A then cur # splitlines_from [] (tl cs)
      else if c \<in> set line_breaks then cur # splitlines_from [] cs
      else splitlines_from (cur @ [c]) cs)"

definition splitlines :: "string \<Rightarrow> string list" where
  "splitlines text = splitlines_from [] text"

section \<open>The lab-value pattern\<close>

text \<open>
  \<open>_parse_report_values\<close> searches every upper-cased line for
  \<^verbatim>\<open>([A-Z][A-Z0-9\s]{1,30})[:\s]+([\d.]+)\s*(HIGH|LOW|NORMAL)?\<close>
  with \<open>re.search\<close>. The pattern is embedded construct by construct as a backtracking
  matcher in continuation style, which is how the \<open>re\<close> engine runs it: a greedy
  repetition first takes as many characters as it can and gives them back one at a time
  while the rest of the pattern fails; an alternation tries its branches from left to
  right; a greedy optional group is tried before it is skipped.
\<close>

text \<open>The character classes of the pattern.\<close>

definition is_AZ :: "char \<Rightarrow> bool" where
  "is_AZ c = (c \<in> set ascii_uppercase)"

definition is_label :: "char \<Rightarrow> bool" where
  "is_label c = (c \<in> set ascii_uppercase \<or> c \<in> set digits \<or> isspace c)"

definition is_sep :: "char \<Rightarrow> bool" where
  "is_sep c = (c = CHR '':'' \<or> isspace c)"

definition is_val :: "char \<Rightarrow> bool" where
  "is_val c = (c \<in> set digits \<or> c = CHR ''.'')"

text \<open>\<open>backtrack lo n f\<close> tries the counts \<open>n\<close>, \<open>n - 1\<close>, ..., \<open>lo\<close> in this order
  and returns the first success of \<open>f\<close>.\<close>

primrec backtrack :: "nat \<Rightarrow> nat \<Rightarrow> (nat \<Rightarrow> 'a option) \<Rightarrow> 'a option" where
  "backtrack lo 0 f = (if lo = 0 then f 0 else None)"
| "backtrack lo (Suc n) f =
     (if Suc n < lo then None
      else (case f (Suc n) of Some r \<Rightarrow> Some r | None \<Rightarrow> backtrack lo n f))"

text \<open>The greedy repetition \<open>[cls]{lo,hi}\<close> at the head of \<open>s\<close>; the continuation
  receives the characters taken and the rest of the line.\<close>

definition rep_greedy ::
  "(char \<Rightarrow> bool) \<Rightarrow> nat \<Rightarrow> nat \<Rightarrow> string \<Rightarrow> (string \<Rightarrow> string \<Rightarrow> 'a option) \<Rightarrow> 'a option" where
  "rep_greedy cls lo hi s cont =
     backtrack lo (min hi (length (takeWhile cls s))) (\<lambda>n. cont (take n s) (drop n s))"

text \<open>\<open>[cls]+\<close> and \<open>[cls]*\<close>: no upper bound other than the line itself.\<close>

definition plus_greedy ::
  "(char \<Rightarrow> bool) \<Rightarrow> string \<Rightarrow> (string \<Rightarrow> string \<Rightarrow> 'a option) \<Rightarrow> 'a option" where
  "plus_greedy cls s cont = rep_greedy cls 1 (length s) s cont"

definition star_greedy ::
  "(char \<Rightarrow> bool) \<Rightarrow> string \<Rightarrow> (string \<Rightarrow> string \<Rightarrow> 'a option) \<Rightarrow> 'a option" where
  "star_greedy cls s cont = rep_greedy cls 0 (length s) s cont"

text \<open>A literal word at the head of \<open>s\<close>.\<close>

definition literal :: "string \<Rightarrow> string \<Rightarrow> (string \<Rightarrow> 'a option) \<Rightarrow> 'a option" where
  "literal w s cont = (if take (length w) s = w then cont (drop (length w) s) else None)"

text \<open>\<open>(HIGH|LOW|NORMAL)?\<close>: the three branches in order, then the empty match, in
  which case the group is \<open>None\<close>.\<close>

definition opt_status ::
  "string \<Rightarrow> (string option \<Rightarrow> string \<Rightarrow> 'a option) \<Rightarrow> 'a option" where
  "opt_status s cont =
     (case literal ''HIGH'' s (cont (Some ''HIGH'')) of Some r \<Rightarrow> Some r | None \<Rightarrow>
      (case literal ''LOW'' s (cont (Some ''LOW'')) of Some r \<Rightarrow> Some r | None \<Rightarrow>
       (case literal ''NORMAL'' s (cont (Some ''NORMAL'')) of Some r \<Rightarrow> Some r | None \<Rightarrow>
        cont None s)))"


text \<open>The part of the pattern after the first group,
  \<^verbatim>\<open>[:\s]+([\d.]+)\s*(HIGH|LOW|NORMAL)?\<close>, yielding groups 2 and 3.\<close>

definition match_tail :: "string \<Rightarrow> (string \<times> string option) option" where
  "match_tail r1 =
     plus_greedy is_sep r1 (\<lambda>_ r2.
     plus_greedy is_val r2 (\<lambda>v r3.
     star_greedy isspace r3 (\<lambda>_ r4.
     opt_status r4 (\<lambda>st _. Some (v, st)))))"

text \<open>The whole pattern anchored at the head of \<open>s\<close>; the result is
  \<open>match.groups()\<close>.\<close>

definition match_here :: "string \<Rightarrow> (string \<times> string \<times> string option) option" where
  "match_here s =
     (case s of [] \<Rightarrow> None
      | c # r0 \<Rightarrow>
          if is_AZ c then
            rep_greedy is_label 1 30 r0 (\<lambda>g r1.
              map_option (\<lambda>(v, st). (c # g, v, st)) (match_tail r1))
          else None)"

text \<open>\<open>re.search\<close>: the match at the leftmost position that has one.\<close>

fun search :: "string \<Rightarrow> (string \<times> string \<times> string option) option" where
  "search [] = match_here []"
| "search (c # cs) =
     (case match_here (c # cs) of Some m \<Rightarrow> Some m | None \<Rightarrow> search cs)"

section \<open>Offline parsing\<close>

text \<open>One entry of the dictionary \<open>data\<close>: \<open>{"value": ..., "status": ...}\<close>.\<close>

record lab_value =
  "value" :: string
  status :: string

text \<open>
  A Python \<open>dict\<close> keeps its keys in the order of first insertion, and
  \<open>_offline_summary\<close> iterates in that order, so \<open>data\<close> is an association list:
  \<open>AList.update\<close> overwrites a present key in place and appends a new one.
\<close>

type_synonym parsed = "(string \<times> lab_value) list"

text \<open>The body of the loop of \<open>_parse_report_values\<close> for one line: the key and the
  entry it stores, or \<open>None\<close> when the line does not match.\<close>

definition parse_line :: "string \<Rightarrow> (string \<times> lab_value) option" where
  "parse_line line =
     (case search (upper line) of
        None \<Rightarrow> None
      | Some (param, val, st) \<Rightarrow>
          Some (strip param,
                \<lparr>value = val,
                 status = (case st of Some s \<Rightarrow> capitalize s | None \<Rightarrow> ''Normal'')\<rparr>))"

definition parse_step :: "string \<Rightarrow> parsed \<Rightarrow> parsed" where
  "parse_step line data =
     (case parse_line line of None \<Rightarrow> data | Some (k, v) \<Rightarrow> AList.update k v data)"

text \<open>\<open>ReportQASystem._parse_report_values\<close>.\<close>

definition parse_report_values :: "string \<Rightarrow> parsed" where
  "parse_report_values text = fold parse_step (splitlines text) []"

section \<open>Offline summary\<close>

definition nl :: string where
  "nl = [CHR 0x0A]"

text \<open>The message literals of \<open>_offline_summary\<close>; the warning sign (U+26A0, here
  followed by the variation selector U+FE0F), the check mark (U+2714), the arrows
  (U+2191, U+2193) and the siren (U+1F6A8) are their UTF-8 bytes.\<close>

definition unable_msg :: string where
  "unable_msg = [CHR 0xE2, CHR 0x9A, CHR 0xA0, CHR 0xEF, CHR 0xB8, CHR 0x8F]
                @ '' Unable to interpret report content.''"

definition up_arrow :: string where
  "up_arrow = [CHR 0xE2, CHR 0x86, CHR 0x91]"

definition down_arrow :: string where
  "down_arrow = [CHR 0xE2, CHR 0x86, CHR 0x93]"

definition normal_header :: string where
  "normal_header = [CHR 0xE2, CHR 0x9C, CHR 0x94] @ '' Normal Values:''"

definition high_header :: string where
  "high_header = nl @ [CHR 0xE2, CHR 0x9A, CHR 0xA0] @ '' High Values:''"

definition low_header :: string where
  "low_header = nl @ [CHR 0xE2, CHR 0x9A, CHR 0xA0] @ '' Low Values:''"

definition recommendation :: "string list" where
  "recommendation =
     [nl @ [CHR 0xF0, CHR 0x9F, CHR 0x9A, CHR 0xA8] @ '' Recommendation:'',
      ''- Please consult a qualified medical professional.'']"

text \<open>The three kinds of item the loop appends.\<close>

definition high_item :: "string \<times> lab_value \<Rightarrow> string" where
  "high_item kv = fst kv @ '': '' @ value (snd kv) @ '' '' @ up_arrow"

definition low_item :: "string \<times> lab_value \<Rightarrow> string" where
  "low_item kv = fst kv @ '': '' @ value (snd kv) @ '' '' @ down_arrow"

definition normal_item :: "string \<times> lab_value \<Rightarrow> string" where
  "normal_item kv = fst kv @ '': '' @ value (snd kv)"

text \<open>The body of the loop over \<open>parsed.items()\<close>: the entry is appended to one of
  the lists \<open>high\<close>, \<open>low\<close>, \<open>normal\<close>.\<close>

definition classify :: "string \<times> lab_value \<Rightarrow> string list \<times> string list \<times> string list
                        \<Rightarrow> string list \<times> string list \<times> string list" where
  "classify kv acc =
     (case (kv, acc) of ((key, val), (high, low, normal)) \<Rightarrow>
        if status val = ''High'' then (high @ [high_item (key, val)], low, normal)
        else if status val = ''Low'' then (high, low @ [low_item (key, val)], normal)
        else (high, low, normal @ [normal_item (key, val)]))"

definition bullet :: "string \<Rightarrow> string" where
  "bullet x = ''- '' @ x"

text \<open>The list \<open>output\<close> as built from the three lists.\<close>

definition summary_lines :: "string list \<times> string list \<times> string list \<Rightarrow> string list" where
  "summary_lines sections =
     (case sections of (high, low, normal) \<Rightarrow>
        (if normal \<noteq> [] then normal_header # map bullet normal else [])
        @ (if high \<noteq> [] then high_header # map bullet high else [])
        @ (if low \<noteq> [] then low_header # map bullet low else [])
        @ recommendation)"

text \<open>\<open>ReportQASystem._offline_summary\<close>.\<close>

definition offline_summary :: "parsed \<Rightarrow> string" where
  "offline_summary parsed =
     (if parsed = [] then unable_msg
      else join nl (summary_lines (fold classify parsed ([], [], []))))"

section \<open>The document store and the AI gateway\<close>

text \<open>One entry of \<open>analysis_store["analyses"]\<close>; \<open>ai_summary\<close> is \<open>None\<close> until
  the analysis writes it.\<close>

record report =
  id' :: string
  filename :: string
  analysis :: string
  uploaded_at :: string
  ai_summary :: "string option"

text \<open>
  What \<open>self.model.generate_content(prompt)\<close> followed by \<open>response.text\<close> does:
  it yields a text, or raises an exception whose \<open>str\<close> is the given message.
  \<open>self.model\<close> is \<open>None\<close> when no API key is configured.
\<close>

datatype gemini_result = Text string | Raised string

type_synonym gemini_model = "(string \<Rightarrow> gemini_result) option"

text \<open>
  The state of a \<open>ReportQASystem\<close>: the list \<open>analysis_store["analyses"]\<close>, which
  \<open>_save_store\<close> writes out whole after every mutation, and, to make the use of the
  gateway observable, the prompts passed to \<open>generate_content\<close> so far.
\<close>

record qa_state =
  analysis_store :: "report list"
  gateway_calls :: "string list"

text \<open>\<open>upload_report\<close>; the pair \<open>env\<close> holds what the environment supplies to the
  call: the string of \<open>uuid.uuid4()\<close> and of \<open>datetime.now().isoformat()\<close>.\<close>

definition upload_report :: "string \<times> string \<Rightarrow> string \<Rightarrow> string \<Rightarrow> qa_state \<Rightarrow> string \<times> qa_state" where
  "upload_report env fname content st =
     (case env of (report_id, now) \<Rightarrow>
        (report_id,
         st\<lparr>analysis_store := analysis_store st @
              [\<lparr>id' = report_id, filename = fname, analysis = content,
                uploaded_at = now, ai_summary = None\<rparr>]\<rparr>))"

definition unlines :: "string list \<Rightarrow> string" where
  "unlines ls = concat (map (\<lambda>l. l @ nl) ls)"

text \<open>The f-string of \<open>analyze_report\<close>.\<close>

definition analyze_prompt :: "string \<Rightarrow> string" where
  "analyze_prompt content =
     nl @ unlines
       [''You are a medical assistant.'',
        '''',
        ''Tasks:'',
        ''1. Patient-friendly summary'',
        ''2. Highlight abnormal values'',
        ''3. Simple explanation (non-diagnostic)'',
        ''4. Whether doctor consultation is advised'',
        '''',
        ''Rules:'',
        ''- Do NOT diagnose'',
        ''- Do NOT assume missing values'',
        '''',
        ''Medical Report:'']
     @ content @ nl"

text \<open>The call of the gateway in \<open>analyze_report\<close>, with its \<open>try\<close>/\<open>except\<close>:
  the value of \<open>summary\<close> afterwards and the state. Both branches of the handler only
  print.\<close>

definition ask_for_summary :: "gemini_model \<Rightarrow> string \<Rightarrow> qa_state \<Rightarrow> string option \<times> qa_state" where
  "ask_for_summary model content st =
     (case model of
        None \<Rightarrow> (None, st)
      | Some generate_content \<Rightarrow>
          (let prompt = analyze_prompt content;
               st' = st\<lparr>gateway_calls := gateway_calls st @ [prompt]\<rparr>
           in case generate_content prompt of
                Text t \<Rightarrow> (Some t, st')
              | Raised e \<Rightarrow> (None, st')))"

text \<open>Python's \<open>not summary\<close>: \<open>None\<close> and the empty string are false.\<close>

definition falsy :: "string option \<Rightarrow> bool" where
  "falsy summary = (case summary of None \<Rightarrow> True | Some t \<Rightarrow> t = [])"

text \<open>The loop that writes the summary back.\<close>

definition write_summary :: "string \<Rightarrow> string \<Rightarrow> report list \<Rightarrow> report list" where
  "write_summary report_id summary reports =
     map (\<lambda>r. if id' r = report_id then r\<lparr>ai_summary := Some summary\<rparr> else r) reports"

text \<open>\<open>ReportQASystem.analyze_report\<close>.\<close>

definition analyze_report ::
  "gemini_model \<Rightarrow> string \<times> string \<Rightarrow> string \<Rightarrow> string \<Rightarrow> qa_state \<Rightarrow> string \<times> qa_state" where
  "analyze_report model env fname content st =
     (case upload_report env fname content st of (report_id, st1) \<Rightarrow>
      (case ask_for_summary model content st1 of (summary, st2) \<Rightarrow>
       (let summary = (if falsy summary
                       then offline_summary (parse_report_values content)
                       else the summary)
        in (summary,
            st2\<lparr>analysis_store := write_summary report_id summary (analysis_store st2)\<rparr>))))"

definition no_reports_msg :: string where
  "no_reports_msg = [CHR 0xE2, CHR 0x9A, CHR 0xA0, CHR 0xEF, CHR 0xB8, CHR 0x8F]
                    @ '' No reports uploaded.''"

definition quota_msg :: string where
  "quota_msg = [CHR 0xE2, CHR 0x9A, CHR 0xA0, CHR 0xEF, CHR 0xB8, CHR 0x8F]
               @ '' AI quota exceeded. Please try again later.''"

text \<open>The value of \<open>combined_reports\<close>.\<close>

definition combined_reports :: "report list \<Rightarrow> string" where
  "combined_reports reports = join (nl @ nl) (map analysis reports)"

text \<open>The f-string of \<open>answer_question\<close>.\<close>

definition question_prompt :: "string \<Rightarrow> string \<Rightarrow> string" where
  "question_prompt combined question =
     nl @ unlines
       [''Answer ONLY using the provided report data.'',
        '''',
        ''Rules:'',
        ''- Do not guess'',
        ''- Do not add new medical facts'',
        ''- If data is missing, clearly say so'',
        '''',
        ''Reports:'']
     @ combined @ nl @ nl @ ''Question:'' @ nl @ question @ nl"

text \<open>\<open>ReportQASystem.answer_question\<close>.\<close>

definition answer_question :: "gemini_model \<Rightarrow> string \<Rightarrow> qa_state \<Rightarrow> string \<times> qa_state" where
  "answer_question model question st =
     (let reports = analysis_store st in
      if reports = [] then (no_reports_msg, st)
      else
        (let combined = combined_reports reports in
         case model of
           None \<Rightarrow> (offline_summary (parse_report_values combined), st)
         | Some generate_content \<Rightarrow>
             (let prompt = question_prompt combined question;
                  st' = st\<lparr>gateway_calls := gateway_calls st @ [prompt]\<rparr>
              in case generate_content prompt of
                   Text t \<Rightarrow> (t, st')
                 | Raised e \<Rightarrow>
                     if contains ''429'' e then (quota_msg, st')
                     else (offline_summary (parse_report_values combined), st'))))"

text \<open>A session of the report system: the calls made on one \<open>ReportQASystem\<close>, each
  with what the environment and the gateway do during that call.\<close>

datatype qa_call =
    Upload "string \<times> string" string string
  | Analyze gemini_model "string \<times> string" string string
  | Ask gemini_model string

fun run_call :: "qa_call \<Rightarrow> qa_state \<Rightarrow> qa_state" where
  "run_call (Upload env fname content) st = snd (upload_report env fname content st)"
| "run_call (Analyze model env fname content) st = snd (analyze_report model env fname content st)"
| "run_call (Ask model question) st = snd (answer_question model question st)"

definition run_calls :: "qa_call list \<Rightarrow> qa_state \<Rightarrow> qa_state" where
  "run_calls calls st = fold run_call calls st"

text \<open>What a record keeps of its upload: identifier, file name and raw text.\<close>

definition same_upload :: "report \<Rightarrow> report \<Rightarrow> bool" where
  "same_upload r r' \<longleftrightarrow> id' r' = id' r \<and> filename r' = filename r \<and> analysis r' = analysis r"

section \<open>The cached remote lookup of the case chat\<close>

text \<open>A decoded JSON document, as \<open>response.json()\<close> returns it; an object is the
  Python \<open>dict\<close>, its keys distinct and in order. Of a number the code only ever asks
  whether it is zero.\<close>

datatype json =
    JNull
  | JBool bool
  | JNum int
  | JStr string
  | JArr "json list"
  | JObj "(string \<times> json) list"

text \<open>What the first three lines of the \<open>try\<close> block give: \<open>requests.post\<close>,
  \<open>raise_for_status\<close> or \<open>response.json()\<close> raises, or the body is decoded.\<close>

datatype http_result = Http_error | Body json

text \<open>\<open>x.get(key, default)\<close>; on anything but a \<open>dict\<close> the attribute lookup raises,
  which is \<open>None\<close> here.\<close>

fun py_get :: "json \<Rightarrow> string \<Rightarrow> json \<Rightarrow> json option" where
  "py_get (JObj kvs) key dflt = Some (case map_of kvs key of Some v \<Rightarrow> v | None \<Rightarrow> dflt)"
| "py_get _ key dflt = None"

text \<open>Truth value of a JSON value in a condition.\<close>

fun truthy :: "json \<Rightarrow> bool" where
  "truthy JNull = False"
| "truthy (JBool b) = b"
| "truthy (JNum n) = (n \<noteq> 0)"
| "truthy (JStr s) = (s \<noteq> [])"
| "truthy (JArr xs) = (xs \<noteq> [])"
| "truthy (JObj kvs) = (kvs \<noteq> [])"

fun str_items :: "json list \<Rightarrow> string list option" where
  "str_items [] = Some []"
| "str_items (JStr s # xs) = map_option ((#) s) (str_items xs)"
| "str_items (_ # xs) = None"

text \<open>\<open>"; ".join(x)\<close>: \<open>x\<close> is iterated (a list by items, a string by characters, a
  dict by keys) and every item must be a string; otherwise a \<open>TypeError\<close> is raised.\<close>

fun join_items :: "json \<Rightarrow> string option" where
  "join_items (JArr xs) = map_option (join ''; '') (str_items xs)"
| "join_items (JStr s) = Some (join ''; '' (map (\<lambda>c. [c]) s))"
| "join_items (JObj kvs) = Some (join ''; '' (map fst kvs))"
| "join_items _ = None"

text \<open>\<open>"; ".join(x) if x else dflt\<close>.\<close>

definition joined_or :: "json \<Rightarrow> string \<Rightarrow> string option" where
  "joined_or x dflt = (if truthy x then join_items x else Some dflt)"

text \<open>The dictionary \<open>fetch_medical_info\<close> returns.\<close>

record med_info =
  query :: string
  description :: json
  common_symptoms :: string
  treatment :: string
  warnings :: string
  references :: string

text \<open>The rest of the \<open>try\<close> block up to the dictionary \<open>result\<close>; \<open>None\<close> when one
  of its steps raises.\<close>

definition build_result :: "string \<Rightarrow> json \<Rightarrow> med_info option" where
  "build_result q data = do {
     result_obj \<leftarrow> py_get data ''result'' (JObj []);
     resp_obj \<leftarrow> py_get result_obj ''response'' (JObj []);
     description \<leftarrow> py_get resp_obj ''message'' (JStr ''Not available'');
     recommendations \<leftarrow> py_get resp_obj ''recommendations'' (JArr []);
     warnings \<leftarrow> py_get resp_obj ''warnings'' (JArr []);
     references \<leftarrow> py_get resp_obj ''references'' (JArr []);
     follow_up \<leftarrow> py_get resp_obj ''followUp'' (JArr []);
     symptoms_text \<leftarrow> joined_or recommendations ''Not available'';
     treatment_text \<leftarrow> joined_or follow_up ''Not available'';
     warnings_text \<leftarrow> joined_or warnings ''None'';
     references_text \<leftarrow> joined_or references ''None'';
     Some \<lparr>query = q, description = description, common_symptoms = symptoms_text,
           treatment = treatment_text, warnings = warnings_text,
           references = references_text\<rparr>
   }"

text \<open>The dictionary returned when every attempt has failed.\<close>

definition unavailable :: "string \<Rightarrow> med_info" where
  "unavailable q =
     \<lparr>query = q, description = JStr ''Medical service unavailable'',
      common_symptoms = ''Unavailable'', treatment = ''Unavailable'',
      warnings = ''Unavailable'', references = ''Unavailable''\<rparr>"

text \<open>
  The state the lookup works on: the content of the cache file (no file is the empty
  dictionary) and the number of requests posted so far. The remote endpoint is a
  function from the number of the request and the message sent to what comes back.
\<close>

record lookup_state =
  cache :: "string \<rightharpoonup> med_info"
  requests :: nat

type_synonym endpoint = "nat \<Rightarrow> string \<Rightarrow> http_result"

definition get_cached_response :: "string \<Rightarrow> lookup_state \<Rightarrow> med_info option" where
  "get_cached_response q st = cache st (lower q)"

definition save_cached_response :: "string \<Rightarrow> med_info \<Rightarrow> lookup_state \<Rightarrow> lookup_state" where
  "save_cached_response q response st = st\<lparr>cache := (cache st)(lower q \<mapsto> response)\<rparr>"

text \<open>The \<open>try\<close> block of request number \<open>n\<close> up to the dictionary \<open>result\<close>:
  \<open>None\<close> when it raises, whether in the transport or while the body is read.\<close>

definition request_result :: "endpoint \<Rightarrow> nat \<Rightarrow> string \<Rightarrow> med_info option" where
  "request_result ep n q =
     (case ep n q of Http_error \<Rightarrow> None | Body data \<Rightarrow> build_result q data)"

text \<open>One pass through the body of \<open>for attempt in range(3)\<close>: the request is posted,
  and the result is built and cached, or the attempt fails (the handler prints and sleeps two
  seconds).\<close>

definition attempt :: "endpoint \<Rightarrow> string \<Rightarrow> lookup_state \<Rightarrow> med_info option \<times> lookup_state" where
  "attempt ep q st =
     (let st1 = st\<lparr>requests := requests st + 1\<rparr> in
      case request_result ep (requests st) q of
        Some result \<Rightarrow> (Some result, save_cached_response (lower q) result st1)
      | None \<Rightarrow> (None, st1))"

text \<open>The loop with \<open>n\<close> attempts left, and the fall-through return after it.\<close>

fun attempts :: "nat \<Rightarrow> endpoint \<Rightarrow> string \<Rightarrow> lookup_state \<Rightarrow> med_info \<times> lookup_state" where
  "attempts 0 ep q st = (unavailable q, st)"
| "attempts (Suc n) ep q st =
     (case attempt ep q st of
        (Some result, st') \<Rightarrow> (result, st')
      | (None, st') \<Rightarrow> attempts n ep q st')"

text \<open>\<open>fetch_medical_info\<close>.\<close>

definition fetch_medical_info :: "endpoint \<Rightarrow> string \<Rightarrow> lookup_state \<Rightarrow> med_info \<times> lookup_state" where
  "fetch_medical_info ep q st =
     (case get_cached_response (lower q) st of
        Some cached \<Rightarrow> (cached, st)
      | None \<Rightarrow> attempts 3 ep q st)"


section \<open>Properties of the pattern matcher\<close>
































section \<open>The parser and the summary on the glucose example\<close>




text \<open>The summary of the text that consists of the two lines only, in full.\<close>

lemma two_line_summary:
  "offline_summary (parse_report_values (''GLUCOSE: 180 HIGH'' @ nl @ ''WBC: 6.2'')) =
     normal_header @ nl @ ''- WBC: 6.2'' @ nl @ high_header @ nl @ ''- GLUCOSE: 180 '' @ up_arrow
     @ nl @ nl @ [CHR 0xF0, CHR 0x9F, CHR 0x9A, CHR 0xA8] @ '' Recommendation:'' @ nl
     @ ''- Please consult a qualified medical professional.''"
  by code_simp

section \<open>Which lines the parser records\<close>




section \<open>Properties of the summary and of the analysis\<close>

lemma join_nonempty: "x \<in> set xs \<Longrightarrow> x \<noteq> [] \<Longrightarrow> join sep xs \<noteq> []"
  by (induction sep xs rule: join.induct) auto

lemma summary_lines_recommendation:
  "''- Please consult a qualified medical professional.'' \<in> set (summary_lines sections)"
  by (cases sections) (simp add: summary_lines_def recommendation_def)

lemma offline_summary_nonempty: "offline_summary parsed \<noteq> []"
proof (cases "parsed = []")
  case True
  then show ?thesis by (simp add: offline_summary_def unable_msg_def)
next
  case False
  have "join nl (summary_lines (fold classify parsed ([], [], []))) \<noteq> []"
    by (rule join_nonempty [OF summary_lines_recommendation]) simp
  with False show ?thesis by (simp add: offline_summary_def)
qed

lemma analyze_report_summary:
  "fst (analyze_report model env fname content st) =
     (case model of
        None \<Rightarrow> offline_summary (parse_report_values content)
      | Some g \<Rightarrow>
          (case g (analyze_prompt content) of
             Text t \<Rightarrow> if t = [] then offline_summary (parse_report_values content) else t
           | Raised e \<Rightarrow> offline_summary (parse_report_values content)))"
  by (auto simp: analyze_report_def upload_report_def ask_for_summary_def falsy_def Let_def
      split: prod.splits option.splits gemini_result.splits)



text \<open>
  Claim C10. When the gateway call succeeds with the empty string, \<open>analyze_report\<close> does
  exactly what it does when the call raises: the same summary is returned and the same
  state is left, the summary being the offline summary of the parsed report text, which is
  never empty.
\<close>

theorem empty_gateway_text_is_failure:
  assumes "g (analyze_prompt content) = Text []"
    and "g' (analyze_prompt content) = Raised e"
  shows "analyze_report (Some g) env fname content st
           = analyze_report (Some g') env fname content st
       \<and> fst (analyze_report (Some g) env fname content st)
           = offline_summary (parse_report_values content)
       \<and> fst (analyze_report (Some g) env fname content st) \<noteq> []"
proof -
  from assms have "analyze_report (Some g) env fname content st
           = analyze_report (Some g') env fname content st"
    by (simp add: analyze_report_def ask_for_summary_def falsy_def Let_def split: prod.splits)
  moreover from assms(1) have "fst (analyze_report (Some g) env fname content st)
           = offline_summary (parse_report_values content)"
    by (simp add: analyze_report_summary)
  ultimately show ?thesis by (simp add: offline_summary_nonempty)
qed

theorem empty_gateway_text_is_failure_witness:
  "analyze_report (Some (\<lambda>p. Text [])) (''id-1'', ''2024-05-01T10:00:00'') ''cbc.txt'' ''WBC: 6.2''
       \<lparr>analysis_store = [], gateway_calls = []\<rparr>
     = analyze_report (Some (\<lambda>p. Raised ''500 internal error''))
         (''id-1'', ''2024-05-01T10:00:00'') ''cbc.txt'' ''WBC: 6.2''
         \<lparr>analysis_store = [], gateway_calls = []\<rparr> \<and>
   fst (analyze_report (Some (\<lambda>p. Text [])) (''id-1'', ''2024-05-01T10:00:00'') ''cbc.txt''
          ''WBC: 6.2'' \<lparr>analysis_store = [], gateway_calls = []\<rparr>)
     = offline_summary (parse_report_values ''WBC: 6.2'') \<and>
   fst (analyze_report (Some (\<lambda>p. Text [])) (''id-1'', ''2024-05-01T10:00:00'') ''cbc.txt''
          ''WBC: 6.2'' \<lparr>analysis_store = [], gateway_calls = []\<rparr>) \<noteq> []"
  by (rule empty_gateway_text_is_failure
             [of "\<lambda>p. Text []" "''WBC: 6.2''" "\<lambda>p. Raised ''500 internal error''"
                 "''500 internal error''", OF refl refl])

text \<open>
  Claim C4. With no record in the store, \<open>answer_question\<close> returns the fixed message
  "No reports uploaded." for every question and every gateway, and leaves the state as it
  was: the store is unchanged and no prompt has been sent to the gateway. The answer is
  this constant, so it owes nothing to the parser either.
\<close>

theorem answer_question_no_reports:
  "analysis_store st = [] \<Longrightarrow> answer_question model question st = (no_reports_msg, st)"
  by (simp add: answer_question_def)

theorem answer_question_no_reports_witness:
  "analysis_store \<lparr>analysis_store = [], gateway_calls = []\<rparr> = [] \<and>
   answer_question (Some (\<lambda>p. Text ''fine'')) ''What is my WBC?''
       \<lparr>analysis_store = [], gateway_calls = []\<rparr>
     = (no_reports_msg, \<lparr>analysis_store = [], gateway_calls = []\<rparr>)"
  using answer_question_no_reports
          [of "\<lparr>analysis_store = [], gateway_calls = []\<rparr>" "Some (\<lambda>p. Text ''fine'')" "''What is my WBC?''"]
  by simp

section \<open>Properties of the store and of question answering\<close>

lemma upload_report_eq:
  "upload_report (rid, now) fname content st =
     (rid, st\<lparr>analysis_store := analysis_store st @
              [\<lparr>id' = rid, filename = fname, analysis = content,
                uploaded_at = now, ai_summary = None\<rparr>]\<rparr>)"
  by (simp add: upload_report_def)

lemma ask_for_summary_store:
  "analysis_store (snd (ask_for_summary model content st)) = analysis_store st"
  by (simp add: ask_for_summary_def Let_def split: option.splits gemini_result.splits)

lemma analyze_report_store:
  "analysis_store (snd (analyze_report model (rid, now) fname content st)) =
     write_summary rid (fst (analyze_report model (rid, now) fname content st))
       (analysis_store st @
          [\<lparr>id' = rid, filename = fname, analysis = content,
            uploaded_at = now, ai_summary = None\<rparr>])"
proof -
  obtain summary st2 where
    a: "ask_for_summary model content (snd (upload_report (rid, now) fname content st)) = (summary, st2)"
    by (cases "ask_for_summary model content (snd (upload_report (rid, now) fname content st))")
  then have "analysis_store st2 = analysis_store (snd (upload_report (rid, now) fname content st))"
    using ask_for_summary_store [of model content "snd (upload_report (rid, now) fname content st)"]
    by simp
  with a show ?thesis
    by (simp add: analyze_report_def upload_report_eq Let_def)
qed

lemma answer_question_store:
  "analysis_store (snd (answer_question model question st)) = analysis_store st"
  by (simp add: answer_question_def Let_def split: option.splits gemini_result.splits)

lemma write_summary_nth:
  "i < length rs \<Longrightarrow>
     write_summary rid s rs ! i =
       (if id' (rs ! i) = rid then (rs ! i)\<lparr>ai_summary := Some s\<rparr> else rs ! i)"
  by (simp add: write_summary_def)

lemma length_write_summary: "length (write_summary rid s rs) = length rs"
  by (simp add: write_summary_def)

lemma run_call_keeps:
  assumes "i < length (analysis_store st)"
  shows "i < length (analysis_store (run_call c st)) \<and>
         same_upload (analysis_store st ! i) (analysis_store (run_call c st) ! i)"
proof (cases c)
  case (Upload env fname content)
  obtain rid now where "env = (rid, now)" by (cases env)
  with Upload assms show ?thesis
    by (simp add: upload_report_eq same_upload_def nth_append)
next
  case (Analyze model env fname content)
  obtain rid now where "env = (rid, now)" by (cases env)
  with Analyze assms show ?thesis
    by (simp add: analyze_report_store write_summary_nth length_write_summary
        same_upload_def nth_append)
next
  case (Ask model question)
  with assms show ?thesis by (simp add: answer_question_store same_upload_def)
qed

lemma run_calls_keep:
  "i < length (analysis_store st) \<Longrightarrow>
     i < length (analysis_store (run_calls calls st)) \<and>
     same_upload (analysis_store st ! i) (analysis_store (run_calls calls st) ! i)"
proof (induction calls arbitrary: st)
  case Nil
  then show ?case by (simp add: run_calls_def same_upload_def)
next
  case (Cons c calls)
  from run_call_keeps [OF Cons.prems, of c] have
    1: "i < length (analysis_store (run_call c st))"
    and 2: "same_upload (analysis_store st ! i) (analysis_store (run_call c st) ! i)"
    by simp_all
  from Cons.IH [OF 1] 2 show ?case
    by (simp add: run_calls_def same_upload_def)
qed

text \<open>
  Claim C9. The record that \<open>upload_report\<close> appends is found, in a full scan of the
  store, at the position it was appended at, with the identifier, the file name and the raw
  text that were given, and this stays so after any further calls of \<open>upload_report\<close>,
  \<open>analyze_report\<close> and \<open>answer_question\<close>. The write-back of \<open>analyze_report\<close>
  relates the store after the call to the store right after its upload as follows: the
  length is the same, a record whose identifier is the new one differs in \<open>ai_summary\<close>
  only, which holds the returned summary, and every other record is unchanged.
\<close>

theorem record_round_trip_and_summary_frame:
  "(let st1 = snd (upload_report (rid, now) fname content st);
        st2 = run_calls calls st1;
        n = length (analysis_store st)
    in fst (upload_report (rid, now) fname content st) = rid \<and>
       n < length (analysis_store st2) \<and>
       id' (analysis_store st2 ! n) = rid \<and>
       filename (analysis_store st2 ! n) = fname \<and>
       analysis (analysis_store st2 ! n) = content)
   \<and>
   (let before = analysis_store (snd (upload_report (rid, now) fname content st));
        (summary, st') = analyze_report model (rid, now) fname content st
    in length (analysis_store st') = length before \<and>
       (\<forall>i<length before.
          analysis_store st' ! i =
            (if id' (before ! i) = rid then (before ! i)\<lparr>ai_summary := Some summary\<rparr>
             else before ! i)))"
proof -
  let ?st1 = "snd (upload_report (rid, now) fname content st)"
  let ?n = "length (analysis_store st)"
  have n: "?n < length (analysis_store ?st1)" by (simp add: upload_report_eq)
  have new: "analysis_store ?st1 ! ?n =
      \<lparr>id' = rid, filename = fname, analysis = content, uploaded_at = now, ai_summary = None\<rparr>"
    by (simp add: upload_report_eq)
  from run_calls_keep [OF n, of calls] new have first:
    "?n < length (analysis_store (run_calls calls ?st1))"
    "id' (analysis_store (run_calls calls ?st1) ! ?n) = rid"
    "filename (analysis_store (run_calls calls ?st1) ! ?n) = fname"
    "analysis (analysis_store (run_calls calls ?st1) ! ?n) = content"
    by (simp_all add: same_upload_def)
  have second: "length (analysis_store (snd (analyze_report model (rid, now) fname content st)))
         = length (analysis_store ?st1)"
    "\<forall>i<length (analysis_store ?st1).
          analysis_store (snd (analyze_report model (rid, now) fname content st)) ! i =
            (if id' (analysis_store ?st1 ! i) = rid
             then (analysis_store ?st1 ! i)\<lparr>ai_summary := Some (fst (analyze_report model (rid, now) fname content st))\<rparr>
             else analysis_store ?st1 ! i)"
    by (simp_all add: analyze_report_store length_write_summary write_summary_nth upload_report_eq)
  from first second show ?thesis
    by (simp add: Let_def split_beta upload_report_eq)
qed

theorem record_round_trip_and_summary_frame_witness:
  "(let st = \<lparr>analysis_store =
                [\<lparr>id' = ''id-1'', filename = ''cbc.txt'', analysis = ''WBC: 6.2'',
                  uploaded_at = ''2024-05-01T10:00:00'', ai_summary = Some ''fine''\<rparr>],
              gateway_calls = []\<rparr>;
        st1 = snd (upload_report (''id-2'', ''2024-05-02T10:00:00'') ''lipid.txt'' ''LDL: 160 HIGH'' st);
        st2 = run_calls [Ask None ''Is my LDL high?'',
                         Analyze (Some (\<lambda>p. Text ''All good.'')) (''id-3'', ''2024-05-03T10:00:00'')
                           ''k.txt'' ''K  4.5''] st1
    in 1 < length (analysis_store st2) \<and>
       id' (analysis_store st2 ! 1) = ''id-2'' \<and>
       filename (analysis_store st2 ! 1) = ''lipid.txt'' \<and>
       analysis (analysis_store st2 ! 1) = ''LDL: 160 HIGH'')
   \<and>
   (let st = \<lparr>analysis_store =
                [\<lparr>id' = ''id-1'', filename = ''cbc.txt'', analysis = ''WBC: 6.2'',
                  uploaded_at = ''2024-05-01T10:00:00'', ai_summary = Some ''fine''\<rparr>],
              gateway_calls = []\<rparr>;
        st' = snd (analyze_report (Some (\<lambda>p. Text ''LDL is high.''))
                     (''id-2'', ''2024-05-02T10:00:00'') ''lipid.txt'' ''LDL: 160 HIGH'' st)
    in analysis_store st' =
         [\<lparr>id' = ''id-1'', filename = ''cbc.txt'', analysis = ''WBC: 6.2'',
           uploaded_at = ''2024-05-01T10:00:00'', ai_summary = Some ''fine''\<rparr>,
          \<lparr>id' = ''id-2'', filename = ''lipid.txt'', analysis = ''LDL: 160 HIGH'',
           uploaded_at = ''2024-05-02T10:00:00'', ai_summary = Some ''LDL is high.''\<rparr>])"
proof -
  let ?st = "\<lparr>analysis_store =
                [\<lparr>id' = ''id-1'', filename = ''cbc.txt'', analysis = ''WBC: 6.2'',
                  uploaded_at = ''2024-05-01T10:00:00'', ai_summary = Some ''fine''\<rparr>],
              gateway_calls = []\<rparr>"
  let ?calls = "[Ask None ''Is my LDL high?'',
                 Analyze (Some (\<lambda>p. Text ''All good.'')) (''id-3'', ''2024-05-03T10:00:00'')
                   ''k.txt'' ''K  4.5'']"
  let ?g = "Some (\<lambda>p. Text ''LDL is high.'')"
  note t = record_round_trip_and_summary_frame
             [of "''id-2''" "''2024-05-02T10:00:00''" "''lipid.txt''" "''LDL: 160 HIGH''" ?st ?calls ?g]
  have s: "fst (analyze_report ?g (''id-2'', ''2024-05-02T10:00:00'') ''lipid.txt'' ''LDL: 160 HIGH'' ?st)
             = ''LDL is high.''"
    by (simp add: analyze_report_summary)
  let ?st' = "snd (analyze_report ?g (''id-2'', ''2024-05-02T10:00:00'') ''lipid.txt'' ''LDL: 160 HIGH'' ?st)"
  from t s have len: "length (analysis_store ?st') = 2"
    and nth: "\<forall>i<2. analysis_store ?st' ! i =
        (if id' ((analysis_store ?st @ [\<lparr>id' = ''id-2'', filename = ''lipid.txt'',
              analysis = ''LDL: 160 HIGH'', uploaded_at = ''2024-05-02T10:00:00'',
              ai_summary = None\<rparr>]) ! i) = ''id-2''
         then ((analysis_store ?st @ [\<lparr>id' = ''id-2'', filename = ''lipid.txt'',
              analysis = ''LDL: 160 HIGH'', uploaded_at = ''2024-05-02T10:00:00'',
              ai_summary = None\<rparr>]) ! i)\<lparr>ai_summary := Some ''LDL is high.''\<rparr>
         else (analysis_store ?st @ [\<lparr>id' = ''id-2'', filename = ''lipid.txt'',
              analysis = ''LDL: 160 HIGH'', uploaded_at = ''2024-05-02T10:00:00'',
              ai_summary = None\<rparr>]) ! i)"
    by (simp_all add: Let_def split_beta upload_report_eq)
  from nth have n0: "analysis_store ?st' ! 0 = \<lparr>id' = ''id-1'', filename = ''cbc.txt'',
        analysis = ''WBC: 6.2'', uploaded_at = ''2024-05-01T10:00:00'', ai_summary = Some ''fine''\<rparr>"
    by simp
  from nth have n1: "analysis_store ?st' ! 1 = \<lparr>id' = ''id-2'', filename = ''lipid.txt'',
        analysis = ''LDL: 160 HIGH'', uploaded_at = ''2024-05-02T10:00:00'',
        ai_summary = Some ''LDL is high.''\<rparr>"
    by simp
  from len n0 n1 have store: "analysis_store ?st' =
         [\<lparr>id' = ''id-1'', filename = ''cbc.txt'', analysis = ''WBC: 6.2'',
           uploaded_at = ''2024-05-01T10:00:00'', ai_summary = Some ''fine''\<rparr>,
          \<lparr>id' = ''id-2'', filename = ''lipid.txt'', analysis = ''LDL: 160 HIGH'',
           uploaded_at = ''2024-05-02T10:00:00'', ai_summary = Some ''LDL is high.''\<rparr>]"
    by (intro nth_equalityI) (auto simp: less_Suc_eq numeral_2_eq_2)
  from t store show ?thesis by (simp add: Let_def split_beta)
qed

text \<open>
  Claim C6. With a non-empty store and a model configured, when the gateway call raises,
  \<open>answer_question\<close> returns the fixed message "AI quota exceeded. Please try again
  later." if the text of the exception contains "429", which is how the code recognises an
  exceeded quota, and otherwise the offline summary of the parsed combined reports. In both
  cases the result is an ordinary answer: the exception does not leave the function.
\<close>

theorem answer_question_gateway_failure:
  assumes "analysis_store st \<noteq> []"
    and "g (question_prompt (combined_reports (analysis_store st)) question) = Raised e"
  shows "fst (answer_question (Some g) question st) =
           (if contains ''429'' e then quota_msg
            else offline_summary (parse_report_values (combined_reports (analysis_store st))))"
  using assms by (simp add: answer_question_def Let_def)

theorem answer_question_gateway_failure_witness:
  "fst (answer_question (Some (\<lambda>p. Raised ''429 Resource has been exhausted''))
          ''Is my WBC normal?''
          \<lparr>analysis_store =
             [\<lparr>id' = ''id-1'', filename = ''cbc.txt'', analysis = ''WBC: 6.2'',
               uploaded_at = ''2024-05-01T10:00:00'', ai_summary = None\<rparr>],
           gateway_calls = []\<rparr>) = quota_msg \<and>
   fst (answer_question (Some (\<lambda>p. Raised ''500 internal error''))
          ''Is my WBC normal?''
          \<lparr>analysis_store =
             [\<lparr>id' = ''id-1'', filename = ''cbc.txt'', analysis = ''WBC: 6.2'',
               uploaded_at = ''2024-05-01T10:00:00'', ai_summary = None\<rparr>],
           gateway_calls = []\<rparr>)
     = offline_summary (parse_report_values ''WBC: 6.2'')"
proof -
  let ?st = "\<lparr>analysis_store =
             [\<lparr>id' = ''id-1'', filename = ''cbc.txt'', analysis = ''WBC: 6.2'',
               uploaded_at = ''2024-05-01T10:00:00'', ai_summary = None\<rparr>],
           gateway_calls = []\<rparr>"
  have 1: "analysis_store ?st \<noteq> []" by simp
  have 2: "contains ''429'' ''429 Resource has been exhausted''" by code_simp
  have 3: "\<not> contains ''429'' ''500 internal error''" by code_simp
  have 4: "combined_reports (analysis_store ?st) = ''WBC: 6.2''" by (simp add: combined_reports_def)
  from answer_question_gateway_failure
         [OF 1, of "\<lambda>p. Raised ''429 Resource has been exhausted''" "''Is my WBC normal?''"
            "''429 Resource has been exhausted''", OF refl]
       answer_question_gateway_failure
         [OF 1, of "\<lambda>p. Raised ''500 internal error''" "''Is my WBC normal?''"
            "''500 internal error''", OF refl]
       2 3 4
  show ?thesis by simp
qed

text \<open>
  Claim C5, as stated, fails: \<open>answer_question\<close> joins the raw texts alone. With two
  records, \<open>cbc.txt\<close> and \<open>lipid.txt\<close>, the combined reports are the two raw texts
  separated by an empty line, and neither file name occurs in the prompt that reaches the
  gateway.
\<close>

theorem corpus_without_filenames_counterexample:
  "combined_reports
     [\<lparr>id' = ''id-1'', filename = ''cbc.txt'', analysis = ''WBC: 6.2'',
       uploaded_at = ''2024-05-01T10:00:00'', ai_summary = Some ''fine''\<rparr>,
      \<lparr>id' = ''id-2'', filename = ''lipid.txt'', analysis = ''LDL: 160 HIGH'',
       uploaded_at = ''2024-05-02T10:00:00'', ai_summary = None\<rparr>]
     = ''WBC: 6.2'' @ nl @ nl @ ''LDL: 160 HIGH'' \<and>
   gateway_calls (snd (answer_question (Some (\<lambda>p. Text ''ok'')) ''Is my WBC normal?''
     \<lparr>analysis_store =
        [\<lparr>id' = ''id-1'', filename = ''cbc.txt'', analysis = ''WBC: 6.2'',
          uploaded_at = ''2024-05-01T10:00:00'', ai_summary = Some ''fine''\<rparr>,
         \<lparr>id' = ''id-2'', filename = ''lipid.txt'', analysis = ''LDL: 160 HIGH'',
          uploaded_at = ''2024-05-02T10:00:00'', ai_summary = None\<rparr>],
      gateway_calls = []\<rparr>))
     = [question_prompt (''WBC: 6.2'' @ nl @ nl @ ''LDL: 160 HIGH'') ''Is my WBC normal?''] \<and>
   \<not> contains ''cbc.txt''
       (question_prompt (''WBC: 6.2'' @ nl @ nl @ ''LDL: 160 HIGH'') ''Is my WBC normal?'') \<and>
   \<not> contains ''lipid.txt''
       (question_prompt (''WBC: 6.2'' @ nl @ nl @ ''LDL: 160 HIGH'') ''Is my WBC normal?'')"
  by code_simp

text \<open>
  Claim C5, amended. For every non-empty store the combined corpus is the \<open>analysis\<close>
  (raw text) fields of all records, in store order, joined by two line feeds, with no file
  name and no summary in it. This corpus is what the prompt sent to the gateway embeds, and
  what the offline fallback parses, both when no model is configured and when the gateway
  raises something other than a quota error.
\<close>

theorem combined_corpus_is_raw_text:
  assumes "analysis_store st \<noteq> []"
  shows "combined_reports (analysis_store st) = join (nl @ nl) (map analysis (analysis_store st))
       \<and> gateway_calls (snd (answer_question (Some g) question st)) =
           gateway_calls st @
             [question_prompt (join (nl @ nl) (map analysis (analysis_store st))) question]
       \<and> fst (answer_question None question st) =
           offline_summary (parse_report_values (join (nl @ nl) (map analysis (analysis_store st))))
       \<and> (g (question_prompt (join (nl @ nl) (map analysis (analysis_store st))) question) = Raised e
            \<and> \<not> contains ''429'' e \<longrightarrow>
          fst (answer_question (Some g) question st) =
            offline_summary (parse_report_values (join (nl @ nl) (map analysis (analysis_store st)))))"
  using assms
  by (simp add: answer_question_def combined_reports_def Let_def split: gemini_result.splits)

theorem combined_corpus_is_raw_text_witness:
  "analysis_store \<lparr>analysis_store =
        [\<lparr>id' = ''id-1'', filename = ''cbc.txt'', analysis = ''WBC: 6.2'',
          uploaded_at = ''2024-05-01T10:00:00'', ai_summary = Some ''fine''\<rparr>,
         \<lparr>id' = ''id-2'', filename = ''lipid.txt'', analysis = ''LDL: 160 HIGH'',
          uploaded_at = ''2024-05-02T10:00:00'', ai_summary = None\<rparr>],
      gateway_calls = []\<rparr> \<noteq> [] \<and>
   fst (answer_question None ''Is my WBC normal?''
     \<lparr>analysis_store =
        [\<lparr>id' = ''id-1'', filename = ''cbc.txt'', analysis = ''WBC: 6.2'',
          uploaded_at = ''2024-05-01T10:00:00'', ai_summary = Some ''fine''\<rparr>,
         \<lparr>id' = ''id-2'', filename = ''lipid.txt'', analysis = ''LDL: 160 HIGH'',
          uploaded_at = ''2024-05-02T10:00:00'', ai_summary = None\<rparr>],
      gateway_calls = []\<rparr>)
     = offline_summary (parse_report_values (''WBC: 6.2'' @ nl @ nl @ ''LDL: 160 HIGH'')) \<and>
   fst (answer_question (Some (\<lambda>p. Raised ''connection reset'')) ''Is my WBC normal?''
     \<lparr>analysis_store =
        [\<lparr>id' = ''id-1'', filename = ''cbc.txt'', analysis = ''WBC: 6.2'',
          uploaded_at = ''2024-05-01T10:00:00'', ai_summary = Some ''fine''\<rparr>,
         \<lparr>id' = ''id-2'', filename = ''lipid.txt'', analysis = ''LDL: 160 HIGH'',
          uploaded_at = ''2024-05-02T10:00:00'', ai_summary = None\<rparr>],
      gateway_calls = []\<rparr>)
     = offline_summary (parse_report_values (''WBC: 6.2'' @ nl @ nl @ ''LDL: 160 HIGH''))"
proof -
  let ?st = "\<lparr>analysis_store =
        [\<lparr>id' = ''id-1'', filename = ''cbc.txt'', analysis = ''WBC: 6.2'',
          uploaded_at = ''2024-05-01T10:00:00'', ai_summary = Some ''fine''\<rparr>,
         \<lparr>id' = ''id-2'', filename = ''lipid.txt'', analysis = ''LDL: 160 HIGH'',
          uploaded_at = ''2024-05-02T10:00:00'', ai_summary = None\<rparr>],
      gateway_calls = []\<rparr>"
  have 1: "analysis_store ?st \<noteq> []" by simp
  have 2: "\<not> contains ''429'' ''connection reset''" by code_simp
  from combined_corpus_is_raw_text
         [OF 1, of "\<lambda>p. Raised ''connection reset''" "''Is my WBC normal?''" "''connection reset''"]
       1 2
  show ?thesis by simp
qed

section \<open>Properties of the cached lookup\<close>

lemma lower_char_idem: "lower_char (lower_char c) = lower_char c"
  by (auto simp: lower_char_def ascii_uppercase_def ascii_lowercase_def)

lemma lower_idem: "lower (lower s) = lower s"
  by (simp add: lower_def lower_char_idem)

lemma attempt_fail:
  "request_result ep (requests st) q = None \<Longrightarrow>
     attempt ep q st = (None, st\<lparr>requests := requests st + 1\<rparr>)"
  by (simp add: attempt_def)

lemma attempt_ok:
  "request_result ep (requests st) q = Some r \<Longrightarrow>
     attempt ep q st =
       (Some r, st\<lparr>cache := (cache st)(lower q \<mapsto> r), requests := requests st + 1\<rparr>)"
  by (simp add: attempt_def save_cached_response_def lower_idem)

lemma attempts_requests_grow: "requests st + (if n = 0 then 0 else 1) \<le> requests (snd (attempts n ep q st))"
proof (induction n arbitrary: st)
  case 0
  show ?case by simp
next
  case (Suc n)
  show ?case
  proof (cases "request_result ep (requests st) q")
    case None
    from Suc [of "st\<lparr>requests := requests st + 1\<rparr>"] have
      "requests st + 1 \<le> requests (snd (attempts n ep q (st\<lparr>requests := requests st + 1\<rparr>)))"
      by (simp split: if_splits)
    with None show ?thesis by (simp add: attempt_fail)
  next
    case (Some r)
    then show ?thesis by (simp add: attempt_ok)
  qed
qed



lemma fetch_miss:
  "cache st (lower q) = None \<Longrightarrow> fetch_medical_info ep q st = attempts 3 ep q st"
  by (simp add: fetch_medical_info_def get_cached_response_def lower_idem)



text \<open>
  Claim C7. For a query that is not in the cache, when all three requests fail,
  \<open>fetch_medical_info\<close> returns, as an ordinary result, the degraded dictionary: the
  query itself, the description "Medical service unavailable" and "Unavailable" in the four
  other fields. Three requests have been posted and the cache is what it was, so the next
  lookup of the same query posts at least one new request.
\<close>

theorem all_attempts_fail_not_cached:
  assumes "cache st (lower q) = None"
    and "\<forall>i<3. request_result ep (requests st + i) q = None"
  shows "fetch_medical_info ep q st =
           (\<lparr>query = q, description = JStr ''Medical service unavailable'',
             common_symptoms = ''Unavailable'', treatment = ''Unavailable'',
             warnings = ''Unavailable'', references = ''Unavailable''\<rparr>,
            st\<lparr>requests := requests st + 3\<rparr>)
         \<and> cache (snd (fetch_medical_info ep q st)) = cache st
         \<and> requests (snd (fetch_medical_info ep q st))
             < requests (snd (fetch_medical_info ep' q (snd (fetch_medical_info ep q st))))"
proof -
  from assms(2) have f: "request_result ep (requests st) q = None"
    "request_result ep (Suc (requests st)) q = None"
    "request_result ep (Suc (Suc (requests st))) q = None"
    using spec [OF assms(2), of 0] spec [OF assms(2), of 1] spec [OF assms(2), of 2]
    by simp_all
  have "attempts (Suc (Suc (Suc 0))) ep q st = (unavailable q, st\<lparr>requests := requests st + 3\<rparr>)"
    by (simp add: attempt_fail f)
  with assms(1) have r: "fetch_medical_info ep q st = (unavailable q, st\<lparr>requests := requests st + 3\<rparr>)"
    by (simp add: fetch_miss numeral_3_eq_3)
  let ?st' = "st\<lparr>requests := requests st + 3\<rparr>"
  from assms(1) have "fetch_medical_info ep' q ?st' = attempts 3 ep' q ?st'"
    by (simp add: fetch_miss)
  moreover have "requests ?st' + 1 \<le> requests (snd (attempts 3 ep' q ?st'))"
    using attempts_requests_grow [of ?st' 3 ep' q] by simp
  ultimately have "requests ?st' < requests (snd (fetch_medical_info ep' q ?st'))"
    by simp
  with r show ?thesis by (simp add: unavailable_def)
qed

theorem all_attempts_fail_not_cached_witness:
  "cache \<lparr>cache = Map.empty, requests = 0\<rparr> (lower ''Flu'') = None \<and>
   request_result (\<lambda>n m. Http_error) 0 ''Flu'' = None \<and>
   request_result (\<lambda>n m. Http_error) 1 ''Flu'' = None \<and>
   request_result (\<lambda>n m. Http_error) 2 ''Flu'' = None \<and>
   fetch_medical_info (\<lambda>n m. Http_error) ''Flu'' \<lparr>cache = Map.empty, requests = 0\<rparr> =
     (\<lparr>query = ''Flu'', description = JStr ''Medical service unavailable'',
       common_symptoms = ''Unavailable'', treatment = ''Unavailable'',
       warnings = ''Unavailable'', references = ''Unavailable''\<rparr>,
      \<lparr>cache = Map.empty, requests = 3\<rparr>) \<and>
   3 < requests (snd (fetch_medical_info (\<lambda>n m. Body (JObj [])) ''Flu''
                        \<lparr>cache = Map.empty, requests = 3\<rparr>))"
proof -
  let ?st = "\<lparr>cache = Map.empty, requests = 0\<rparr>"
  let ?ep = "\<lambda>(n::nat) (m::string). Http_error"
  have 1: "cache ?st (lower ''Flu'') = None" by simp
  have 2: "\<forall>i<3. request_result ?ep (requests ?st + i) ''Flu'' = None"
    by (simp add: request_result_def)
  note t = all_attempts_fail_not_cached [OF 1 2, of "\<lambda>n m. Body (JObj [])"]
  from t have a: "fetch_medical_info ?ep ''Flu'' ?st =
     (\<lparr>query = ''Flu'', description = JStr ''Medical service unavailable'',
       common_symptoms = ''Unavailable'', treatment = ''Unavailable'',
       warnings = ''Unavailable'', references = ''Unavailable''\<rparr>,
      \<lparr>cache = Map.empty, requests = 3\<rparr>)"
    by simp
  from t have "requests (snd (fetch_medical_info ?ep ''Flu'' ?st))
      < requests (snd (fetch_medical_info (\<lambda>n m. Body (JObj [])) ''Flu''
                         (snd (fetch_medical_info ?ep ''Flu'' ?st))))"
    by blast
  then have b: "3 < requests (snd (fetch_medical_info (\<lambda>n m. Body (JObj [])) ''Flu''
                        \<lparr>cache = Map.empty, requests = 3\<rparr>))"
    unfolding a by simp
  have c: "request_result ?ep 0 ''Flu'' = None" "request_result ?ep 1 ''Flu'' = None"
    "request_result ?ep 2 ''Flu'' = None"
    by (simp_all add: request_result_def)
  from 1 c a b show ?thesis by blast
qed



end
